theory Spec2Isabelle
  imports Main "HOL-Library.Word"
begin

unbundle bit_operations_syntax

section \<open>Strings and numbers of the host language\<close>

text \<open>
  A JavaScript string is a sequence of UTF-16 code units; \<open>charCodeAt\<close> reads one of them
  as a number between 0 and 65535. Literals of the source are written with \<open>lit\<close>.
\<close>

type_synonym jsstring = "16 word list"

definition lit :: "string \<Rightarrow> jsstring" where
  "lit s = map of_char s"

definition charCode :: "16 word \<Rightarrow> int" where
  "charCode c = uint c"

text \<open>
  The abstract operation \<open>ToInt32\<close> of ECMAScript on an integral number: reduce modulo
  \<open>2 ^ 32\<close> and read the result as two's complement.
\<close>

definition ToInt32 :: "int \<Rightarrow> int" where
  "ToInt32 x = (let int32bit = x mod 2 ^ 32
                in if int32bit \<ge> 2 ^ 31 then int32bit - 2 ^ 32 else int32bit)"

text \<open>\<open>x << n\<close>: both operands are converted, the shift count is taken modulo 32.\<close>

definition js_shl :: "int \<Rightarrow> nat \<Rightarrow> int" where
  "js_shl x n = ToInt32 (ToInt32 x * 2 ^ (n mod 32))"

text \<open>\<open>x | y\<close>: the bitwise or of the two 32-bit patterns, read as a signed integer.\<close>

definition js_bitor :: "int \<Rightarrow> int \<Rightarrow> int" where
  "js_bitor x y = sint ((word_of_int (ToInt32 x) :: 32 word) OR word_of_int (ToInt32 y))"

text \<open>\<open>a % b\<close> on integral numbers: the remainder takes the sign of the dividend.\<close>

definition js_rem :: "int \<Rightarrow> int \<Rightarrow> int" where
  "js_rem a b = sgn a * (\<bar>a\<bar> mod \<bar>b\<bar>)"

text \<open>
  \<open>Number.prototype.toString\<close> on an integral number below \<open>10 ^ 21\<close>: the decimal
  digits, with a minus sign for a negative number.
\<close>

definition digit :: "nat \<Rightarrow> 16 word" where
  "digit d = of_nat (48 + d)"

fun decimal :: "nat \<Rightarrow> jsstring" where
  "decimal n = (if n < 10 then [digit n] else decimal (n div 10) @ [digit (n mod 10)])"

declare decimal.simps [simp del]

definition int_toString :: "int \<Rightarrow> jsstring" where
  "int_toString i = (if i < 0 then lit ''-'' @ decimal (nat (- i)) else decimal (nat i))"

section \<open>utils.ts\<close>

text \<open>
  \<open>hashString\<close>: the loop over the code units of \<open>str\<close>, with the accumulator \<open>hash\<close>.
  One iteration is \<open>hash = (hash << 5) - hash + char; hash |= 0\<close>. The subtraction and the
  addition are double arithmetic on integers far below \<open>2 ^ 53\<close>, hence exact.
\<close>

definition hash_step :: "int \<Rightarrow> 16 word \<Rightarrow> int" where
  "hash_step hash c =
     (let char = charCode c;
          hash = js_shl hash 5 - hash + char
      in js_bitor hash 0)"

fun hash_loop :: "jsstring \<Rightarrow> int \<Rightarrow> int" where
  "hash_loop [] hash = hash"
| "hash_loop (c # str) hash = hash_loop str (hash_step hash c)"

definition hashString :: "jsstring \<Rightarrow> int" where
  "hashString str = \<bar>hash_loop str 0\<bar>"

text \<open>\<open>deterministicColor\<close>: the template literal \<open>hsl(${hue}, ${saturation}%, ${lightness}%)\<close>.\<close>

definition deterministicColor :: "jsstring \<Rightarrow> jsstring" where
  "deterministicColor seed =
     (let hash = hashString seed;
          hue = js_rem hash 360;
          saturation = 70;
          lightness = 50
      in lit ''hsl('' @ int_toString hue @ lit '', '' @ int_toString saturation @ lit ''%, ''
           @ int_toString lightness @ lit ''%)'')"

section \<open>Doubles\<close>

text \<open>
  Numbers are IEEE 754 doubles. The dimensions of a request are non-negative integers
  below \<open>2 ^ 53\<close>, which doubles hold exactly; the only inexact operation of the program
  is the product \<open>Math.min(width, height) * 0.3\<close>. A non-negative finite double is written
  here as the pair \<open>(N, d)\<close> of its value \<open>N / 2 ^ d\<close>.
\<close>

type_synonym double = "nat \<times> nat"

fun bitlen :: "nat \<Rightarrow> nat" where
  "bitlen n = (if n = 0 then 0 else Suc (bitlen (n div 2)))"

declare bitlen.simps [simp del]

fun ndigits :: "nat \<Rightarrow> nat" where
  "ndigits n = (if n = 0 then 0 else Suc (ndigits (n div 10)))"

declare ndigits.simps [simp del]

text \<open>Rounding to 53 significant bits, to nearest, ties to even.\<close>

definition round53 :: "nat \<Rightarrow> nat" where
  "round53 p =
     (let k = bitlen p in
      if k \<le> 53 then p
      else let sh = k - 53; q = p div 2 ^ sh; r = p mod 2 ^ sh;
               q' = (if 2 * r > 2 ^ sh \<or> (2 * r = 2 ^ sh \<and> odd q) then q + 1 else q)
           in q' * 2 ^ sh)"

definition double_of_nat :: "nat \<Rightarrow> double" where
  "double_of_nat n = (n, 0)"

text \<open>The literal \<open>0.3\<close>: the double nearest to three tenths.\<close>

definition double_0_3 :: double where
  "double_0_3 = (5404319552844595, 54)"

definition double_mul :: "double \<Rightarrow> double \<Rightarrow> double" where
  "double_mul x y = (round53 (fst x * fst y), snd x + snd y)"

text \<open>\<open>x / 2\<close> is exact.\<close>

definition double_half :: "double \<Rightarrow> double" where
  "double_half x = (fst x, snd x + 1)"

text \<open>
  \<open>Number.prototype.toString\<close> on a double that is zero or lies between \<open>0.1\<close> and
  \<open>10 ^ 21\<close>, where the result is in plain decimal notation: the shortest digit string
  \<open>s\<close> of \<open>k\<close> digits such that \<open>s * 10 ^ (n - k)\<close> rounds back to the double, the
  closest one when there are two. \<open>in_rounding_interval x s a b\<close> tells whether
  \<open>s * 10 ^ a / 10 ^ b\<close> rounds to \<open>x\<close>.
\<close>

definition in_rounding_interval :: "double \<Rightarrow> nat \<Rightarrow> nat \<Rightarrow> nat \<Rightarrow> bool" where
  "in_rounding_interval x s a b =
     (let N = fst x; d = snd x;
          k2 = bitlen N;
          V = N * 2 ^ 55;
          up = 2 ^ (k2 + 1);
          low = (if N = 2 ^ (k2 - 1) then 2 ^ k2 else 2 ^ (k2 + 1));
          c = s * 10 ^ a * 2 ^ (d + 55);
          lo = (V - low) * 10 ^ b;
          hi = (V + up) * 10 ^ b
      in if even ((N * 2 ^ 53) div 2 ^ k2) then lo \<le> c \<and> c \<le> hi else lo < c \<and> c < hi)"

definition decimal_distance :: "double \<Rightarrow> nat \<Rightarrow> nat \<Rightarrow> nat \<Rightarrow> int" where
  "decimal_distance x s a b = \<bar>int (s * 10 ^ a * 2 ^ snd x) - int (fst x * 10 ^ b)\<bar>"

definition decimal_candidate :: "double \<Rightarrow> nat \<Rightarrow> nat \<Rightarrow> nat option" where
  "decimal_candidate x n k =
     (let a = n - k; b = k - n;
          s_lo = (fst x * 10 ^ b) div (2 ^ snd x * 10 ^ a);
          s_hi = s_lo + 1;
          ok_lo = in_rounding_interval x s_lo a b;
          ok_hi = in_rounding_interval x s_hi a b
      in if ok_lo \<and> ok_hi then
           (let d_lo = decimal_distance x s_lo a b; d_hi = decimal_distance x s_hi a b
            in if d_lo < d_hi \<or> (d_lo = d_hi \<and> even s_lo) then Some s_lo else Some s_hi)
         else if ok_lo then Some s_lo
         else if ok_hi then Some s_hi
         else None)"

fun shortest_decimal :: "double \<Rightarrow> nat \<Rightarrow> nat list \<Rightarrow> (nat \<times> nat) option" where
  "shortest_decimal x n [] = None"
| "shortest_decimal x n (k # ks) =
     (case decimal_candidate x n k of
        Some s \<Rightarrow> Some (s, k)
      | None \<Rightarrow> shortest_decimal x n ks)"

definition pad_left :: "nat \<Rightarrow> jsstring \<Rightarrow> jsstring" where
  "pad_left w s = replicate (w - length s) (digit 0) @ s"

definition decimal_notation :: "nat \<Rightarrow> nat \<Rightarrow> nat \<Rightarrow> jsstring" where
  "decimal_notation s k n =
     (if k \<le> n then decimal (s * 10 ^ (n - k))
      else decimal (s div 10 ^ (k - n)) @ lit ''.''
             @ pad_left (k - n) (decimal (s mod 10 ^ (k - n))))"

definition Number_toString :: "double \<Rightarrow> jsstring" where
  "Number_toString x =
     (if fst x = 0 then lit ''0''
      else let n = ndigits (fst x div 2 ^ snd x)
           in case shortest_decimal x n [1, 2, 3, 4, 5, 6, 7, 8, 9, 10, 11, 12, 13, 14, 15, 16, 17] of
                Some (s, k) \<Rightarrow> decimal_notation s k n
              | None \<Rightarrow> [])"

section \<open>Strings: trimming, replacing, URI encoding\<close>

text \<open>\<open>String.prototype.trim\<close> removes white space and line terminators from both ends.\<close>

definition is_white_space :: "16 word \<Rightarrow> bool" where
  "is_white_space c =
     (c \<in> {0x09, 0x0A, 0x0B, 0x0C, 0x0D, 0x20, 0xA0, 0x1680, 0x2028, 0x2029, 0x202F, 0x205F,
            0x3000, 0xFEFF}
      \<or> (0x2000 \<le> c \<and> c \<le> 0x200A))"

definition js_trim :: "jsstring \<Rightarrow> jsstring" where
  "js_trim s = rev (dropWhile is_white_space (rev (dropWhile is_white_space s)))"

text \<open>\<open>s.replace(/c/g, r)\<close> for a pattern of one literal character.\<close>

definition replace_all :: "16 word \<Rightarrow> jsstring \<Rightarrow> jsstring \<Rightarrow> jsstring" where
  "replace_all c r s = concat (map (\<lambda>x. if x = c then r else [x]) s)"


text \<open>A thrown value: an error object with its name, its message and its \<open>code\<close> property.\<close>

datatype js_error = JsError (err_name: jsstring) (err_message: jsstring) (err_code: "jsstring option")

definition new_Error :: "jsstring \<Rightarrow> js_error" where
  "new_Error msg = JsError (lit ''Error'') msg None"

definition URIError :: js_error where
  "URIError = JsError (lit ''URIError'') (lit ''URI malformed'') None"

definition TypeError :: "jsstring \<Rightarrow> js_error" where
  "TypeError msg = JsError (lit ''TypeError'') msg None"

text \<open>
  \<open>encodeURIComponent\<close> is the abstract operation \<open>Encode\<close> of ECMAScript with the
  unreserved characters left as they are: every other code point is written as the
  percent-escaped octets of its UTF-8 encoding, and a surrogate code unit without its
  partner raises a \<open>URIError\<close>.
\<close>

definition uriUnreserved :: "16 word \<Rightarrow> bool" where
  \<open>uriUnreserved c =
     (c \<in> set (lit ''ABCDEFGHIJKLMNOPQRSTUVWXYZabcdefghijklmnopqrstuvwxyz0123456789-_.!~*'()''))\<close>

definition is_lead :: "16 word \<Rightarrow> bool" where
  "is_lead c = (0xD800 \<le> c \<and> c \<le> 0xDBFF)"

definition is_trail :: "16 word \<Rightarrow> bool" where
  "is_trail c = (0xDC00 \<le> c \<and> c \<le> 0xDFFF)"

definition code_point :: "16 word \<Rightarrow> 16 word \<Rightarrow> nat" where
  "code_point lead trail = (unat lead - 0xD800) * 0x400 + (unat trail - 0xDC00) + 0x10000"

definition utf8 :: "nat \<Rightarrow> 8 word list" where
  "utf8 cp =
     (if cp < 0x80 then [of_nat cp]
      else if cp < 0x800 then [of_nat (0xC0 + cp div 64), of_nat (0x80 + cp mod 64)]
      else if cp < 0x10000 then
        [of_nat (0xE0 + cp div 4096), of_nat (0x80 + cp div 64 mod 64), of_nat (0x80 + cp mod 64)]
      else
        [of_nat (0xF0 + cp div 262144), of_nat (0x80 + cp div 4096 mod 64),
         of_nat (0x80 + cp div 64 mod 64), of_nat (0x80 + cp mod 64)])"

definition hex_digit :: "nat \<Rightarrow> 16 word" where
  "hex_digit d = (if d < 10 then of_nat (48 + d) else of_nat (55 + d))"

definition percent :: "8 word \<Rightarrow> jsstring" where
  "percent octet = [0x25, hex_digit (unat octet div 16), hex_digit (unat octet mod 16)]"

definition escape :: "nat \<Rightarrow> jsstring" where
  "escape cp = concat (map percent (utf8 cp))"

fun Encode :: "(16 word \<Rightarrow> bool) \<Rightarrow> jsstring \<Rightarrow> js_error + jsstring" where
  "Encode unescaped [] = Inr []"
| "Encode unescaped [c] =
     (if unescaped c then Inr [c]
      else if is_lead c \<or> is_trail c then Inl URIError
      else Inr (escape (unat c)))"
| "Encode unescaped (c # c' # s) =
     (if unescaped c then map_sum id ((#) c) (Encode unescaped (c' # s))
      else if is_trail c then Inl URIError
      else if is_lead c then
        (if is_trail c' then map_sum id ((@) (escape (code_point c c'))) (Encode unescaped s)
         else Inl URIError)
      else map_sum id ((@) (escape (unat c))) (Encode unescaped (c' # s)))"

definition encodeURIComponent :: "jsstring \<Rightarrow> js_error + jsstring" where
  "encodeURIComponent s = Encode uriUnreserved s"

text \<open>\<open>v || d\<close> on an optional string: \<open>undefined\<close> and the empty string are falsy.\<close>

definition or_else :: "jsstring option \<Rightarrow> jsstring \<Rightarrow> jsstring" where
  "or_else v d = (case v of None \<Rightarrow> d | Some s \<Rightarrow> if s = [] then d else s)"

section \<open>index.ts\<close>

text \<open>
  \<open>PlaceholderOptions\<close>. An optional field is \<open>None\<close> when it is absent. The field
  \<open>text\<close> is named \<open>text'\<close> here.
\<close>

record PlaceholderOptions =
  width :: nat
  height :: nat
  seed :: jsstring
  format :: "jsstring option"
  text' :: "jsstring option"
  textColor :: "jsstring option"
  backgroundColor :: "jsstring option"

text \<open>
  The dimensions are natural numbers. Below \<open>2 ^ 53\<close> a double holds them exactly and
  the template literal prints all their digits, as \<open>decimal\<close> does; the statements that
  depend on the digits carry that bound.
\<close>

text \<open>The template literal of \<open>renderSvg\<close>, with the line breaks and indentation of the source.\<close>

definition svg_template ::
  "jsstring \<Rightarrow> jsstring \<Rightarrow> jsstring \<Rightarrow> jsstring \<Rightarrow> jsstring \<Rightarrow> jsstring \<Rightarrow> jsstring" where
  \<open>svg_template w h bgColor fontSize fgColor displayText =
     lit ''<?xml version="1.0" encoding="UTF-8"?>\<newline>    <svg width="'' @ w
     @ lit ''" height="'' @ h @ lit ''" viewBox="0 0 '' @ w @ lit '' '' @ h
     @ lit ''" xmlns="http://www.w3.org/2000/svg">\<newline>      <rect width="100%" height="100%" fill="''
     @ bgColor
     @ lit ''"/>\<newline>      <text\<newline>        x="50%"\<newline>        y="50%"\<newline>        font-family="sans-serif"\<newline>        font-size="''
     @ fontSize @ lit ''"\<newline>        fill="'' @ fgColor
     @ lit ''"\<newline>        text-anchor="middle"\<newline>        dominant-baseline="middle"\<newline>      >''
     @ displayText @ lit ''</text>\<newline>    </svg>\<newline>  ''\<close>

text \<open>
  The same text without the line break and the two spaces at its end, which \<open>trim\<close>
  removes. The six strings are spliced in as they are, with no escaping.
\<close>

definition svg_document ::
  "jsstring \<Rightarrow> jsstring \<Rightarrow> jsstring \<Rightarrow> jsstring \<Rightarrow> jsstring \<Rightarrow> jsstring \<Rightarrow> jsstring" where
  \<open>svg_document w h bgColor fontSize fgColor label =
     lit ''<?xml version="1.0" encoding="UTF-8"?>\<newline>    <svg width="'' @ w
     @ lit ''" height="'' @ h @ lit ''" viewBox="0 0 '' @ w @ lit '' '' @ h
     @ lit ''" xmlns="http://www.w3.org/2000/svg">\<newline>      <rect width="100%" height="100%" fill="''
     @ bgColor
     @ lit ''"/>\<newline>      <text\<newline>        x="50%"\<newline>        y="50%"\<newline>        font-family="sans-serif"\<newline>        font-size="''
     @ fontSize @ lit ''"\<newline>        fill="'' @ fgColor
     @ lit ''"\<newline>        text-anchor="middle"\<newline>        dominant-baseline="middle"\<newline>      >''
     @ label @ lit ''</text>\<newline>    </svg>''\<close>

definition renderSvg :: "PlaceholderOptions \<Rightarrow> jsstring" where
  "renderSvg options =
     (let bgColor = or_else (backgroundColor options) (deterministicColor (seed options));
          displayText = or_else (text' options)
            (decimal (width options) @ lit ''x'' @ decimal (height options));
          fgColor = or_else (textColor options) (lit ''#ffffff'');
          fontSize = double_mul (double_of_nat (min (width options) (height options))) double_0_3;
          svgContent = svg_template (decimal (width options)) (decimal (height options)) bgColor
            (Number_toString fontSize) fgColor displayText
      in js_trim svgContent)"

text \<open>
  The host of \<open>renderPng\<close>: whether \<open>window\<close> is defined, what \<open>import('canvas')\<close>
  yields (an error, or the module with its exports \<open>Canvas\<close> and \<open>Image\<close>, each an object
  or undefined), what \<open>NodeCanvas.createCanvas(width, height)\<close> raises, if anything (a
  \<open>TypeError\<close> when the \<open>Canvas\<close> export has no such method), whether \<open>getContext('2d')\<close>
  gives a context, and the string \<open>toDataURL\<close> makes of the calls a surface has received.
  Calls into the host are recorded in order.
\<close>

datatype host_call =
    ImportCanvas
  | CreateCanvas nat nat
  | CreateElement jsstring
  | SetWidth nat
  | SetHeight nat
  | GetContext jsstring
  | SetFillStyle jsstring
  | FillRect nat nat nat nat
  | SetFont jsstring
  | SetTextAlign jsstring
  | SetTextBaseline jsstring
  | FillText jsstring double double
  | ToDataURL jsstring

record canvas_module =
  Canvas :: "nat option"
  Image :: "nat option"

record host =
  window_defined :: bool
  import_canvas :: "js_error + canvas_module"
  createCanvas :: "nat \<Rightarrow> nat \<Rightarrow> js_error option"
  context_2d :: bool
  toDataURL :: "host_call list \<Rightarrow> jsstring"

text \<open>The module-level variables \<open>NodeCanvas\<close> and \<open>NodeImage\<close>, and the calls made so far.\<close>

record world =
  NodeCanvas :: "nat option"
  NodeImage :: "nat option"
  trace :: "host_call list"

definition call :: "host_call list \<Rightarrow> world \<Rightarrow> world" where
  "call cs w = w\<lparr>trace := trace w @ cs\<rparr>"

text \<open>The block \<open>if (!NodeCanvas) { try { ... } catch (e) { ... } }\<close> of \<open>renderPng\<close>.\<close>

definition canvas_unavailable :: jsstring where
  \<open>canvas_unavailable =
     lit ''Canvas API not available for PNG generation in Node.js. Please install "canvas" or "@napi-rs/canvas" as a peer dependency (e.g., `npm install canvas`), or use `format: "svg"`.''\<close>

definition load_canvas :: "host \<Rightarrow> world \<Rightarrow> (js_error + unit) \<times> world" where
  "load_canvas host w =
     (if NodeCanvas w = None then
        (case import_canvas host of
           Inr nodeCanvasModule \<Rightarrow>
             (Inr (), (call [ImportCanvas] w)
                \<lparr>NodeCanvas := Canvas nodeCanvasModule, NodeImage := Image nodeCanvasModule\<rparr>)
         | Inl e \<Rightarrow>
             if err_code e = Some (lit ''MODULE_NOT_FOUND'') then
               (Inl (new_Error canvas_unavailable), call [ImportCanvas] w)
             else (Inl e, call [ImportCanvas] w))
      else (Inr (), w))"

text \<open>
  The rest of \<open>renderPng\<close>, from \<open>getContext('2d')\<close> on; \<open>surface\<close> holds the calls that
  created the canvas element.
\<close>

definition draw ::
  "host \<Rightarrow> PlaceholderOptions \<Rightarrow> host_call list \<Rightarrow> world \<Rightarrow> (js_error + jsstring) \<times> world" where
  "draw host options surface w =
     (if \<not> context_2d host then
        (Inl (new_Error (lit ''Could not get 2D rendering context from canvas.'')),
         call (surface @ [GetContext (lit ''2d'')]) w)
      else
        let bgColor = or_else (backgroundColor options) (deterministicColor (seed options));
            displayText = or_else (text' options)
              (decimal (width options) @ lit ''x'' @ decimal (height options));
            fgColor = or_else (textColor options) (lit ''#ffffff'');
            fontSize = double_mul (double_of_nat (min (width options) (height options))) double_0_3;
            calls = surface @
              [GetContext (lit ''2d''),
               SetFillStyle bgColor,
               FillRect 0 0 (width options) (height options),
               SetFont (Number_toString fontSize @ lit ''px sans-serif''),
               SetFillStyle fgColor,
               SetTextAlign (lit ''center''),
               SetTextBaseline (lit ''middle''),
               FillText displayText (double_half (double_of_nat (width options)))
                 (double_half (double_of_nat (height options)))]
        in (Inr (toDataURL host calls), call (calls @ [ToDataURL (lit ''image/png'')]) w))"

definition renderPng ::
  "host \<Rightarrow> PlaceholderOptions \<Rightarrow> world \<Rightarrow> (js_error + jsstring) \<times> world" where
  \<open>renderPng host options w =
     (if \<not> window_defined host then
        (case load_canvas host w of
           (Inl e, w') \<Rightarrow> (Inl e, w')
         | (Inr _, w') \<Rightarrow>
             (case NodeCanvas w' of
                None \<Rightarrow>
                  (Inl (TypeError (lit ''Cannot read properties of undefined (reading 'createCanvas')'')), w')
              | Some _ \<Rightarrow>
                  (case createCanvas host (width options) (height options) of
                     Some e \<Rightarrow> (Inl e, call [CreateCanvas (width options) (height options)] w')
                   | None \<Rightarrow>
                       draw host options [CreateCanvas (width options) (height options)] w')))
      else
        draw host options
          [CreateElement (lit ''canvas''), SetWidth (width options), SetHeight (height options)] w)\<close>

definition unsupported_format :: "jsstring \<Rightarrow> jsstring" where
  \<open>unsupported_format f =
     lit ''Unsupported format: '' @ f @ lit ''. Only 'png' and 'svg' are supported.''\<close>

definition generatePlaceholder ::
  "host \<Rightarrow> PlaceholderOptions \<Rightarrow> world \<Rightarrow> (js_error + jsstring) \<times> world" where
  \<open>generatePlaceholder host options w =
     (let format = or_else (format options) (lit ''png'') in
      if format = lit ''svg'' then
        (let svgString = renderSvg options in
         case encodeURIComponent svgString of
           Inl e \<Rightarrow> (Inl e, w)
         | Inr encoded \<Rightarrow>
             (let encodedSvg = replace_all 0x22 (lit ''%22'') (replace_all 0x27 (lit ''%27'') encoded)
              in (Inr (lit ''data:image/svg+xml;charset=utf-8,'' @ encodedSvg), w)))
      else if format = lit ''png'' then renderPng host options w
      else (Inl (new_Error (unsupported_format format)), w))\<close>

text \<open>A sequence of \<open>renderPng\<close> calls in one process, one after the other.\<close>

fun renderPng_calls :: "(host \<times> PlaceholderOptions) list \<Rightarrow> world \<Rightarrow> world" where
  "renderPng_calls [] w = w"
| "renderPng_calls ((host, options) # rest) w = renderPng_calls rest (snd (renderPng host options w))"

definition load_attempts :: "world \<Rightarrow> nat" where
  "load_attempts w = count_list (trace w) ImportCanvas"

section \<open>Sample requests and hosts\<close>

definition sample_options :: "jsstring option \<Rightarrow> PlaceholderOptions" where
  "sample_options fmt =
     \<lparr>width = 100, height = 100, seed = lit ''invalid'', format = fmt, text' = None,
      textColor = None, backgroundColor = None\<rparr>"

definition fresh_world :: world where
  "fresh_world = \<lparr>NodeCanvas = None, NodeImage = None, trace = []\<rparr>"

text \<open>A browser, and Node.js with the module installed, missing, and failing to load.\<close>

definition browser_host :: host where
  "browser_host =
     \<lparr>window_defined = True,
      import_canvas = Inr \<lparr>Canvas = Some 1, Image = Some 2\<rparr>,
      createCanvas = (\<lambda>width height. None),
      context_2d = True,
      toDataURL = (\<lambda>calls. lit ''data:image/png;base64,'')\<rparr>"

definition node_host :: host where
  "node_host = browser_host\<lparr>window_defined := False\<rparr>"

definition module_not_found :: js_error where
  "module_not_found =
     JsError (lit ''Error'') (lit ''Cannot find module canvas'') (Some (lit ''MODULE_NOT_FOUND''))"

definition node_host_missing :: host where
  "node_host_missing = node_host\<lparr>import_canvas := Inl module_not_found\<rparr>"






definition styled_options :: PlaceholderOptions where
  "styled_options =
     \<lparr>width = 100, height = 100, seed = lit ''user-456'', format = Some (lit ''svg''),
      text' = Some (lit ''U456''), textColor = Some (lit ''#000000''),
      backgroundColor = Some (lit ''#FFD700'')\<rparr>"

text \<open>A request for the vector format with a label that holds both quotes.\<close>

definition quoted_options :: PlaceholderOptions where
  \<open>quoted_options =
     \<lparr>width = 100, height = 100, seed = lit ''invalid'', format = Some (lit ''svg''),
      text' = Some (lit ''it's "x"''), textColor = None, backgroundColor = None\<rparr>\<close>

text \<open>Node.js with a module whose \<open>Canvas\<close> export is a class without \<open>createCanvas\<close>.\<close>

definition node_host_class :: host where
  "node_host_class =
     node_host\<lparr>createCanvas :=
       (\<lambda>width height. Some (TypeError (lit ''NodeCanvas.createCanvas is not a function'')))\<rparr>"

section \<open>The specification's words\<close>

text \<open>
  The specification's wording of the hash: a 32-bit signed accumulator starting at 0,
  multiplied by 31 and increased by the character code with wrap-around, and the absolute
  value of its signed reading at the end.
\<close>

definition spec_hash :: "jsstring \<Rightarrow> int" where
  "spec_hash str = \<bar>sint (foldl (\<lambda>acc c. acc * 31 + ucast c) (0 :: 32 word) str)\<bar>"


text \<open>
  The document of the specification is a tree, given below as \<open>placeholder_document\<close>; the
  markup of the program is compared with it by reading the markup back.
\<close>

text \<open>
  Reading markup back. The reader below knows the part of XML these documents are written
  in: a declaration, elements with double-quoted attribute values, empty-element tags and
  character data; it refuses references, and \<open><\<close> in an attribute value. It works one
  code unit at a time and yields the tags and the runs of character data, from which the
  tree is built.
\<close>

datatype xml =
    Element jsstring "(jsstring \<times> jsstring) list" "xml list"
  | CharData jsstring

datatype token =
    Declaration jsstring
  | StartTag jsstring "(jsstring \<times> jsstring) list"
  | EmptyTag jsstring "(jsstring \<times> jsstring) list"
  | EndTag jsstring
  | Characters jsstring

datatype reader =
    InText jsstring
  | TagOpen
  | InDeclaration jsstring bool
  | InEndTag jsstring
  | InName jsstring
  | InTag jsstring "(jsstring \<times> jsstring) list"
  | InAttribute jsstring "(jsstring \<times> jsstring) list" jsstring
  | BeforeValue jsstring "(jsstring \<times> jsstring) list" jsstring
  | InValue jsstring "(jsstring \<times> jsstring) list" jsstring jsstring
  | Closing jsstring "(jsstring \<times> jsstring) list"

definition name_char :: "16 word \<Rightarrow> bool" where
  "name_char c =
     ((0x41 \<le> c \<and> c \<le> 0x5A) \<or> (0x61 \<le> c \<and> c \<le> 0x7A) \<or> (0x30 \<le> c \<and> c \<le> 0x39)
      \<or> c = 0x2D \<or> c = 0x5F \<or> c = 0x2E \<or> c = 0x3A)"

definition xml_space :: "16 word \<Rightarrow> bool" where
  "xml_space c = (c = 0x20 \<or> c = 0x09 \<or> c = 0x0A \<or> c = 0x0D)"

definition characters :: "jsstring \<Rightarrow> token list" where
  "characters t = (if t = [] then [] else [Characters t])"

fun step :: "reader \<Rightarrow> 16 word \<Rightarrow> (token list \<times> reader) option" where
  "step (InText t) c =
     (if c = 0x3C then Some (characters t, TagOpen)
      else if c = 0x26 then None
      else Some ([], InText (t @ [c])))"
| "step TagOpen c =
     (if c = 0x3F then Some ([], InDeclaration [] False)
      else if c = 0x2F then Some ([], InEndTag [])
      else if name_char c then Some ([], InName [c])
      else None)"
| "step (InDeclaration d q) c =
     (if q \<and> c = 0x3E then Some ([Declaration d], InText [])
      else if c = 0x3F then Some ([], InDeclaration (if q then d @ [0x3F] else d) True)
      else Some ([], InDeclaration ((if q then d @ [0x3F] else d) @ [c]) False))"
| "step (InEndTag n) c =
     (if c = 0x3E then Some ([EndTag n], InText [])
      else if name_char c then Some ([], InEndTag (n @ [c]))
      else None)"
| "step (InName n) c =
     (if name_char c then Some ([], InName (n @ [c]))
      else if xml_space c then Some ([], InTag n [])
      else if c = 0x3E then Some ([StartTag n []], InText [])
      else if c = 0x2F then Some ([], Closing n [])
      else None)"
| "step (InTag n as) c =
     (if xml_space c then Some ([], InTag n as)
      else if c = 0x3E then Some ([StartTag n as], InText [])
      else if c = 0x2F then Some ([], Closing n as)
      else if name_char c then Some ([], InAttribute n as [c])
      else None)"
| "step (InAttribute n as a) c =
     (if name_char c then Some ([], InAttribute n as (a @ [c]))
      else if c = 0x3D then Some ([], BeforeValue n as a)
      else None)"
| "step (BeforeValue n as a) c =
     (if c = 0x22 then Some ([], InValue n as a []) else None)"
| "step (InValue n as a v) c =
     (if c = 0x22 then Some ([], InTag n (as @ [(a, v)]))
      else if c = 0x3C \<or> c = 0x26 then None
      else Some ([], InValue n as a (v @ [c])))"
| "step (Closing n as) c =
     (if c = 0x3E then Some ([EmptyTag n as], InText []) else None)"

fun tokens :: "reader \<Rightarrow> token list \<Rightarrow> jsstring \<Rightarrow> token list option" where
  "tokens r done [] = (case r of InText t \<Rightarrow> Some (done @ characters t) | _ \<Rightarrow> None)"
| "tokens r done (c # s) =
     (case step r c of
        None \<Rightarrow> None
      | Some (ts, r') \<Rightarrow> tokens r' (done @ ts) s)"

text \<open>
  The tree of a token list: \<open>open\<close> holds the elements that are not closed yet, the
  innermost first, each with the nodes that came before it; \<open>nodes\<close> are the nodes of the
  innermost open element so far. The declaration is not a node.
\<close>

fun build ::
  "token list \<Rightarrow> (jsstring \<times> (jsstring \<times> jsstring) list \<times> xml list) list \<Rightarrow> xml list
     \<Rightarrow> xml list option" where
  "build [] [] nodes = Some nodes"
| "build [] (e # open) nodes = None"
| "build (Declaration d # ts) open nodes = build ts open nodes"
| "build (Characters t # ts) open nodes = build ts open (nodes @ [CharData t])"
| "build (EmptyTag n as # ts) open nodes = build ts open (nodes @ [Element n as []])"
| "build (StartTag n as # ts) open nodes = build ts ((n, as, nodes) # open) []"
| "build (EndTag n # ts) [] nodes = None"
| "build (EndTag n # ts) ((m, as, before) # open) nodes =
     (if n = m then build ts open (before @ [Element m as nodes]) else None)"

definition read_xml :: "jsstring \<Rightarrow> xml list option" where
  "read_xml s = (case tokens (InText []) [] s of None \<Rightarrow> None | Some ts \<Rightarrow> build ts [] [])"


text \<open>
  Strings that can stand in an attribute value, and in character data, as they are: the
  first hold no double quote, \<open><\<close> or \<open>&\<close>, the second no \<open><\<close> or \<open>&\<close>. An override is
  safe when it is absent or such a string.
\<close>

definition safe_attribute :: "jsstring \<Rightarrow> bool" where
  "safe_attribute s = list_all (\<lambda>c. c \<noteq> 0x22 \<and> c \<noteq> 0x3C \<and> c \<noteq> 0x26) s"

definition safe_text :: "jsstring \<Rightarrow> bool" where
  "safe_text s = list_all (\<lambda>c. c \<noteq> 0x3C \<and> c \<noteq> 0x26) s"


text \<open>
  A string is well formed when every surrogate code unit is part of a pair
  (\<open>String.prototype.isWellFormed\<close>).
\<close>

fun isWellFormed :: "jsstring \<Rightarrow> bool" where
  "isWellFormed [] = True"
| "isWellFormed [c] = (\<not> is_lead c \<and> \<not> is_trail c)"
| "isWellFormed (c # c' # s) =
     (if is_lead c then is_trail c' \<and> isWellFormed s
      else \<not> is_trail c \<and> isWellFormed (c' # s))"

text \<open>An override that is absent, or given as a well-formed string.\<close>

definition well_formed_override :: "jsstring option \<Rightarrow> bool" where
  "well_formed_override v = (case v of None \<Rightarrow> True | Some s \<Rightarrow> isWellFormed s)"

definition svg_prefix :: jsstring where
  "svg_prefix = lit ''data:image/svg+xml;charset=utf-8,''"

text \<open>A string without any surrogate code unit.\<close>

definition no_surrogate :: "jsstring \<Rightarrow> bool" where
  "no_surrogate s = list_all (\<lambda>c. \<not> is_lead c \<and> \<not> is_trail c) s"

text \<open>
  The characters that stay as they are in the result of \<open>generatePlaceholder\<close>: the
  unreserved ones but the single quote.
\<close>

definition uriStrict :: "16 word \<Rightarrow> bool" where
  "uriStrict c = (uriUnreserved c \<and> c \<noteq> 0x27)"

section \<open>Properties of the hash\<close>

lemma ToInt32_sint: "ToInt32 x = sint (word_of_int x :: 32 word)"
proof -
  define m where "m = x mod 2 ^ 32"
  have m: "0 \<le> m" "m < 2 ^ 32" by (simp_all add: m_def)
  have "(x + 2 ^ 31) mod 2 ^ 32 = (m + 2 ^ 31) mod 2 ^ 32"
    unfolding m_def by (simp add: mod_add_left_eq)
  also have "\<dots> = (if m \<ge> 2 ^ 31 then m - 2 ^ 31 else m + 2 ^ 31)"
  proof (cases "m \<ge> 2 ^ 31")
    case True
    have "m + 2 ^ 31 = m - 2 ^ 31 + 2 ^ 32" by simp
    then have "(m + 2 ^ 31) mod 2 ^ 32 = (m - 2 ^ 31 + 2 ^ 32) mod 2 ^ 32" by (rule arg_cong)
    also have "\<dots> = (m - 2 ^ 31) mod 2 ^ 32" by (simp only: mod_add_self2)
    also have "\<dots> = m - 2 ^ 31" using True m by simp
    finally show ?thesis using True by simp
  next
    case False
    then show ?thesis using m by simp
  qed
  finally have "(x + 2 ^ 31) mod 2 ^ 32 = (if m \<ge> 2 ^ 31 then m - 2 ^ 31 else m + 2 ^ 31)" .
  then show ?thesis
    by (simp add: int_word_sint ToInt32_def Let_def m_def)
qed

text \<open>One iteration of the loop, on an accumulator that is a 32-bit signed value.\<close>

lemma hash_step_word: "hash_step (sint (w :: 32 word)) c = sint (w * 31 + ucast c)"
proof -
  have shl: "js_shl (sint w) 5 = sint (w * 32)"
    by (simp add: js_shl_def ToInt32_sint)
  have "js_shl (sint w) 5 - sint w + charCode c = sint (w * 32) - sint w + uint c"
    by (simp add: shl charCode_def)
  moreover have "(word_of_int (sint (w * 32) - sint w + uint c) :: 32 word) = w * 31 + ucast c"
    by (simp add: word_of_int_uint)
  ultimately have "ToInt32 (js_shl (sint w) 5 - sint w + charCode c) = sint (w * 31 + ucast c)"
    by (simp only: ToInt32_sint)
  moreover have "js_bitor y 0 = ToInt32 y" for y
    by (simp add: js_bitor_def ToInt32_sint)
  ultimately show ?thesis
    by (simp only: hash_step_def Let_def)
qed

lemma hash_loop_word:
  "hash_loop str (sint (w :: 32 word)) = sint (foldl (\<lambda>acc c. acc * 31 + ucast c) w str)"
  by (induction str arbitrary: w) (simp_all add: hash_step_word)

lemma hash_loop_0_word:
  "hash_loop str 0 = sint (foldl (\<lambda>acc c. acc * 31 + ucast c) (0 :: 32 word) str)"
  using hash_loop_word [of str 0] by simp

text \<open>
  C1. For every string, \<open>hashString\<close> is the absolute value of a 32-bit signed accumulator
  that starts at 0 and is updated, for each code unit in order, to
  \<open>accumulator * 31 + charCode\<close> with two's-complement wrap-around; the empty string
  hashes to 0.
\<close>

theorem hashString_refines_spec:
  "hashString str = spec_hash str \<and> hashString [] = 0"
  by (simp add: hashString_def spec_hash_def hash_loop_0_word)

text \<open>
  The accumulator can end at the least 32-bit signed value, whose absolute value
  \<open>2 ^ 31\<close> is then returned as it is: \<open>Math.abs\<close> works on doubles.
\<close>

lemma hashString_attains_2_31: "hashString (lit ''xfjfxtf'') = 2 ^ 31"
  by (simp add: hashString_def hash_loop_0_word lit_def)

text \<open>
  C6. \<open>hashString\<close> is a function of its argument alone (it takes and returns no state),
  and its value is never negative and fits into 32 bits: it lies between 0 and \<open>2 ^ 31\<close>
  inclusive.
\<close>

theorem hashString_range:
  "0 \<le> hashString s \<and> hashString s \<le> 2 ^ 31 \<and> hashString s < 2 ^ 32"
proof -
  let ?w = "foldl (\<lambda>acc c. acc * 31 + ucast c) (0 :: 32 word) s"
  have "- (2 ^ 31) \<le> sint ?w" "sint ?w < 2 ^ 31"
    using sint_ge [of ?w] sint_lt [of ?w] by simp_all
  then show ?thesis
    by (simp add: hashString_def hash_loop_0_word abs_le_iff)
qed

section \<open>Properties of the colour\<close>

lemma decimal_70: "decimal 70 = lit ''70''"
  by (simp add: decimal.simps digit_def lit_def)

lemma decimal_50: "decimal 50 = lit ''50''"
  by (simp add: decimal.simps digit_def lit_def)

lemma js_rem_nonneg: "0 \<le> a \<Longrightarrow> 0 < b \<Longrightarrow> js_rem a b = a mod b"
  by (cases "a = 0") (simp_all add: js_rem_def)

lemma hashString_nonneg: "0 \<le> hashString s"
  by (simp add: hashString_def)

text \<open>
  C2. For every seed, \<open>deterministicColor\<close> is the string \<open>hsl(H, 70%, 50%)\<close> where \<open>H\<close> is
  the decimal numeral of \<open>hashString seed mod 360\<close>, a number from 0 to 359; the
  saturation 70 and the lightness 50 do not depend on the seed.
\<close>

theorem deterministicColor_hsl:
  "deterministicColor s
     = lit ''hsl('' @ decimal (nat (hashString s mod 360)) @ lit '', 70%, 50%)''
   \<and> 0 \<le> hashString s mod 360 \<and> hashString s mod 360 < 360"
proof -
  have "js_rem (hashString s) 360 = hashString s mod 360"
    by (rule js_rem_nonneg) (simp_all add: hashString_nonneg)
  then show ?thesis
    by (simp add: deterministicColor_def Let_def int_toString_def decimal_70 decimal_50 lit_def)
qed

section \<open>Properties of the URI encoding\<close>

lemma uriUnreserved_not_surrogate: "uriUnreserved c \<Longrightarrow> \<not> is_lead c \<and> \<not> is_trail c"
  by (auto simp: uriUnreserved_def is_lead_def is_trail_def lit_def)

lemma uriUnreserved_not_dq: "\<not> uriUnreserved 0x22"
  by (simp add: uriUnreserved_def lit_def)

lemma uriStrict_not_surrogate: "uriStrict c \<Longrightarrow> \<not> is_lead c \<and> \<not> is_trail c"
  by (simp add: uriStrict_def uriUnreserved_not_surrogate)

lemma Encode_error: "Encode U s = Inl e \<Longrightarrow> e = URIError"
  by (induction U s rule: Encode.induct) (auto split: if_splits simp: map_sum_def split: sum.splits)

lemma lead_not_trail: "is_lead c \<Longrightarrow> \<not> is_trail c"
  by (auto simp: is_lead_def is_trail_def word_le_nat_alt)

lemma Encode_wf:
  assumes U: "\<And>c. U c \<Longrightarrow> \<not> is_lead c \<and> \<not> is_trail c"
  shows "(\<exists>r. Encode U s = Inr r) = isWellFormed s"
  using U by (induction s rule: isWellFormed.induct) (auto simp: map_sum_def lead_not_trail split: sum.splits)

lemma hex_digit_cases:
  "d < 16 \<Longrightarrow> hex_digit d \<in> {48, 49, 50, 51, 52, 53, 54, 55, 56, 57, 65, 66, 67, 68, 69, 70}"
proof -
  assume "d < 16"
  then have "d \<in> {0, 1, 2, 3, 4, 5, 6, 7, 8, 9, 10, 11, 12, 13, 14, 15}" by simp arith
  then show ?thesis by (auto simp: hex_digit_def)
qed

lemma hex_digit_no_quote: "d < 16 \<Longrightarrow> hex_digit d \<noteq> 0x27 \<and> hex_digit d \<noteq> 0x22"
  using hex_digit_cases [of d] by auto

lemma percent_no_quote: "0x27 \<notin> set (percent b) \<and> 0x22 \<notin> set (percent b)"
proof -
  have "unat b < 256" using unsigned_less [of b, where 'a = nat] by simp
  then have a: "unat b div 16 < 16" by simp
  have b: "unat b mod 16 < 16" by simp
  have "hex_digit (unat b div 16) \<noteq> 0x27" "hex_digit (unat b div 16) \<noteq> 0x22"
    "hex_digit (unat b mod 16) \<noteq> 0x27" "hex_digit (unat b mod 16) \<noteq> 0x22"
    using hex_digit_no_quote [OF a] hex_digit_no_quote [OF b] by simp_all
  then show ?thesis
    by (simp add: percent_def)
qed

lemma escape_no_quote: "0x27 \<notin> set (escape cp) \<and> 0x22 \<notin> set (escape cp)"
  using percent_no_quote by (auto simp: escape_def)

lemma replace_all_append: "replace_all c r (a @ b) = replace_all c r a @ replace_all c r b"
  by (simp add: replace_all_def)

lemma replace_all_Cons:
  "replace_all c r (x # s) = (if x = c then r else [x]) @ replace_all c r s"
  by (simp add: replace_all_def)

lemma replace_all_absent: "c \<notin> set s \<Longrightarrow> replace_all c r s = s"
  by (induction s) (auto simp: replace_all_def)


lemma replace_escape:
  "replace_all 0x22 r2 (replace_all 0x27 r1 (escape cp @ t))
     = escape cp @ replace_all 0x22 r2 (replace_all 0x27 r1 t)"
  using escape_no_quote [of cp] by (simp add: replace_all_append replace_all_absent)

lemma uriUnreserved_sq: "uriUnreserved 0x27"
  by (simp add: uriUnreserved_def lit_def)

lemma escape_sq: "escape 0x27 = lit ''%27''"
  by (simp add: escape_def utf8_def percent_def hex_digit_def lit_def)

lemma Encode_strict:
  "Encode uriStrict s
     = map_sum id (\<lambda>r. replace_all 0x22 (lit ''%22'') (replace_all 0x27 (lit ''%27'') r))
         (Encode uriUnreserved s)"
proof (induction s rule: isWellFormed.induct)
  case 1
  then show ?case by (simp add: replace_all_def)
next
  case (2 c)
  show ?case
  proof (cases "c = 0x27")
    case True
    then show ?thesis
      by (simp add: uriStrict_def uriUnreserved_sq is_lead_def is_trail_def escape_sq replace_all_def lit_def)
  next
    case False
    then show ?thesis
      using escape_no_quote [of "unat c"] uriUnreserved_not_dq
      by (auto simp: uriStrict_def replace_all_absent) (auto simp: replace_all_def)
  qed
next
  case (3 c c' s)
  show ?case
  proof (cases "c = 0x27")
    case True
    then show ?thesis
      using 3
      by (simp add: uriStrict_def uriUnreserved_sq is_lead_def is_trail_def escape_sq lit_def map_sum.compositionality comp_def)
         (simp add: replace_all_def map_sum_def split: sum.splits)
  next
    case False
    then show ?thesis
      using 3 uriUnreserved_not_dq uriUnreserved_not_surrogate [of c]
      by (auto simp: uriStrict_def replace_escape replace_all_Cons map_sum.compositionality comp_def)
  qed
qed

section \<open>Properties of the vector renderer\<close>

lemma js_trim_strip:
  assumes "d \<noteq> []" "\<not> is_white_space (hd d)" "\<not> is_white_space (last d)"
    and t: "\<And>x. x \<in> set t \<Longrightarrow> is_white_space x"
  shows "js_trim (d @ t) = d"
proof -
  from assms(1,2) have "dropWhile is_white_space (d @ t) = d @ t"
    by (cases d) simp_all
  moreover have "dropWhile is_white_space (rev t @ rev d) = dropWhile is_white_space (rev d)"
    by (rule dropWhile_append2) (simp add: t)
  moreover from assms(1,3) have "dropWhile is_white_space (rev d) = rev d"
    by (cases d rule: rev_cases) simp_all
  ultimately show ?thesis by (simp add: js_trim_def)
qed

lemma svg_template_document:
  "svg_template w h bg fs fg label = svg_document w h bg fs fg label @ [0x0A, 0x20, 0x20]"
  by (simp add: svg_template_def svg_document_def lit_def)

lemma svg_document_ends:
  "svg_document w h bg fs fg label \<noteq> []"
  "hd (svg_document w h bg fs fg label) = 0x3C"
  "last (svg_document w h bg fs fg label) = 0x3E"
  by (simp_all add: svg_document_def lit_def)

lemma js_trim_svg_template:
  "js_trim (svg_template w h bg fs fg label) = svg_document w h bg fs fg label"
  unfolding svg_template_document
  by (rule js_trim_strip) (auto simp: svg_document_ends is_white_space_def)

lemma renderSvg_unfold:
  "renderSvg options =
     svg_document (decimal (width options)) (decimal (height options))
       (or_else (backgroundColor options) (deterministicColor (seed options)))
       (Number_toString (double_mul (double_of_nat (min (width options) (height options))) double_0_3))
       (or_else (textColor options) (lit ''#ffffff''))
       (or_else (text' options) (decimal (width options) @ lit ''x'' @ decimal (height options)))"
  by (simp add: renderSvg_def Let_def js_trim_svg_template)


lemma draw_empty_override:
  "draw host (options\<lparr>text' := Some []\<rparr>) surface w = draw host (options\<lparr>text' := None\<rparr>) surface w"
  "draw host (options\<lparr>textColor := Some []\<rparr>) surface w
     = draw host (options\<lparr>textColor := None\<rparr>) surface w"
  "draw host (options\<lparr>backgroundColor := Some []\<rparr>) surface w
     = draw host (options\<lparr>backgroundColor := None\<rparr>) surface w"
  by (simp_all add: draw_def or_else_def)

lemma renderPng_empty_override:
  "renderPng host (options\<lparr>text' := Some []\<rparr>) w = renderPng host (options\<lparr>text' := None\<rparr>) w"
  "renderPng host (options\<lparr>textColor := Some []\<rparr>) w
     = renderPng host (options\<lparr>textColor := None\<rparr>) w"
  "renderPng host (options\<lparr>backgroundColor := Some []\<rparr>) w
     = renderPng host (options\<lparr>backgroundColor := None\<rparr>) w"
  by (simp_all add: renderPng_def draw_empty_override split: prod.splits sum.splits option.splits)

lemma renderSvg_empty_override:
  "renderSvg (options\<lparr>text' := Some []\<rparr>) = renderSvg (options\<lparr>text' := None\<rparr>)"
  "renderSvg (options\<lparr>textColor := Some []\<rparr>) = renderSvg (options\<lparr>textColor := None\<rparr>)"
  "renderSvg (options\<lparr>backgroundColor := Some []\<rparr>)
     = renderSvg (options\<lparr>backgroundColor := None\<rparr>)"
  by (simp_all add: renderSvg_def or_else_def)

text \<open>
  C10. In both renderers an override that is the empty string gives the same result as the
  same request without that override, for each of \<open>text\<close>, \<open>textColor\<close> and
  \<open>backgroundColor\<close>.
\<close>

theorem empty_override_is_absent:
  "renderSvg (options\<lparr>text' := Some []\<rparr>) = renderSvg (options\<lparr>text' := None\<rparr>)
   \<and> renderSvg (options\<lparr>textColor := Some []\<rparr>) = renderSvg (options\<lparr>textColor := None\<rparr>)
   \<and> renderSvg (options\<lparr>backgroundColor := Some []\<rparr>)
       = renderSvg (options\<lparr>backgroundColor := None\<rparr>)
   \<and> renderPng host (options\<lparr>text' := Some []\<rparr>) w = renderPng host (options\<lparr>text' := None\<rparr>) w
   \<and> renderPng host (options\<lparr>textColor := Some []\<rparr>) w
       = renderPng host (options\<lparr>textColor := None\<rparr>) w
   \<and> renderPng host (options\<lparr>backgroundColor := Some []\<rparr>) w
       = renderPng host (options\<lparr>backgroundColor := None\<rparr>) w"
  by (simp only: renderSvg_empty_override renderPng_empty_override simp_thms)

section \<open>Properties of well-formed strings\<close>

lemma isWellFormed_append:
  "isWellFormed a \<Longrightarrow> isWellFormed (a @ b) = isWellFormed b"
proof (induction a rule: isWellFormed.induct)
  case 1
  then show ?case by simp
next
  case (2 c)
  then show ?case by (cases b) simp_all
next
  case (3 c c' s)
  then show ?case by (auto split: if_splits)
qed

lemma no_surrogate_wf: "no_surrogate s \<Longrightarrow> isWellFormed s"
  by (induction s rule: isWellFormed.induct) (auto simp: no_surrogate_def)

lemma no_surrogate_append [simp]:
  "no_surrogate (a @ b) = (no_surrogate a \<and> no_surrogate b)"
  by (simp add: no_surrogate_def)

lemma unat_of_nat_small: "n < 256 \<Longrightarrow> unat (of_nat n :: 16 word) = n"
  by (simp add: unat_of_nat)

lemma of_char_small: "unat (of_char c :: 16 word) < 256"
proof -
  have "(of_char c :: nat) mod 256 = of_char c" by simp
  then have lt: "(of_char c :: nat) < 256"
    by (metis mod_less_divisor zero_less_numeral)
  have "(of_char c :: 16 word) = of_nat (of_char c)" by (simp add: of_nat_of_char)
  then have "unat (of_char c :: 16 word) = unat (of_nat (of_char c :: nat) :: 16 word)" by simp
  also have "\<dots> = of_char c" using lt by (rule unat_of_nat_small)
  finally show ?thesis using lt by simp
qed

lemma small_not_surrogate: "unat c < 256 \<Longrightarrow> \<not> is_lead c \<and> \<not> is_trail c"
  by (auto simp: is_lead_def is_trail_def word_le_nat_alt)

lemma no_surrogate_lit [simp]: "no_surrogate (lit s)"
  by (simp add: no_surrogate_def lit_def list_all_iff of_char_small small_not_surrogate)

lemma digit_small: "d < 10 \<Longrightarrow> unat (digit d) < 256"
  unfolding digit_def by (subst unat_of_nat_small) simp_all

lemma no_surrogate_decimal [simp]: "no_surrogate (decimal n)"
proof (induction n rule: decimal.induct)
  case (1 n)
  show ?case
  proof (cases "n < 10")
    case True
    then show ?thesis
      by (simp add: decimal.simps [of n] no_surrogate_def digit_small small_not_surrogate)
  next
    case False
    have "n mod 10 < 10" by simp
    with False 1 show ?thesis
      by (simp add: decimal.simps [of n] digit_small small_not_surrogate)
         (simp add: no_surrogate_def digit_small small_not_surrogate)
  qed
qed

lemma no_surrogate_Number_toString [simp]: "no_surrogate (Number_toString x)"
proof -
  have pad: "no_surrogate (pad_left k (decimal n))" for k n
    by (simp add: pad_left_def) (simp add: no_surrogate_def list_all_iff digit_small small_not_surrogate)
  have "no_surrogate (decimal_notation s k n)" for s k n
    by (simp add: decimal_notation_def pad)
  then show ?thesis
    by (simp add: Number_toString_def Let_def split: option.splits prod.splits)
       (simp add: no_surrogate_def)
qed

lemma no_surrogate_deterministicColor [simp]: "no_surrogate (deterministicColor s)"
  by (simp add: deterministicColor_def Let_def int_toString_def)

lemma isWellFormed_svg_document:
  assumes "no_surrogate w" "no_surrogate h" "no_surrogate fs"
    "isWellFormed bg" "isWellFormed fg" "isWellFormed label"
  shows "isWellFormed (svg_document w h bg fs fg label)"
  using assms
  by (simp add: svg_document_def isWellFormed_append no_surrogate_wf)

section \<open>Properties of the dispatcher\<close>

lemma generatePlaceholder_unsupported:
  "format options = Some f \<Longrightarrow> f \<noteq> [] \<Longrightarrow> f \<noteq> lit ''svg'' \<Longrightarrow> f \<noteq> lit ''png'' \<Longrightarrow>
   generatePlaceholder host options w = (Inl (new_Error (unsupported_format f)), w)"
  by (simp add: generatePlaceholder_def or_else_def)

lemma generatePlaceholder_default:
  "format options = None \<Longrightarrow> generatePlaceholder host options w = renderPng host options w"
  by (simp add: generatePlaceholder_def or_else_def lit_def)

lemma generatePlaceholder_empty_format:
  "format options = Some [] \<Longrightarrow> generatePlaceholder host options w = renderPng host options w"
  by (simp add: generatePlaceholder_def or_else_def lit_def)

section \<open>Properties of the raster renderer\<close>

lemma load_attempts_call:
  "ImportCanvas \<notin> set cs \<Longrightarrow> load_attempts (call cs w) = load_attempts w"
  by (simp add: load_attempts_def call_def count_list_0_iff)

lemma load_attempts_import:
  "load_attempts (call [ImportCanvas] w) = load_attempts w + 1"
  "load_attempts ((call [ImportCanvas] w)\<lparr>NodeCanvas := a, NodeImage := b\<rparr>) = load_attempts w + 1"
  by (simp_all add: load_attempts_def call_def)

lemma NodeCanvas_call: "NodeCanvas (call cs w) = NodeCanvas w"
  by (simp add: call_def)

lemma draw_world:
  "ImportCanvas \<notin> set surface \<Longrightarrow>
   load_attempts (snd (draw host options surface w)) = load_attempts w
   \<and> NodeCanvas (snd (draw host options surface w)) = NodeCanvas w"
  by (simp add: draw_def Let_def load_attempts_call NodeCanvas_call)

lemma load_canvas_cached:
  "NodeCanvas w \<noteq> None \<Longrightarrow> load_canvas host w = (Inr (), w)"
  by (auto simp: load_canvas_def)

lemma renderPng_cached:
  assumes "NodeCanvas w \<noteq> None"
  shows "load_attempts (snd (renderPng host options w)) = load_attempts w
         \<and> NodeCanvas (snd (renderPng host options w)) = NodeCanvas w"
  using assms
  by (auto simp: renderPng_def load_canvas_cached draw_world load_attempts_call NodeCanvas_call
      split: option.splits)

lemma renderPng_calls_cached:
  "NodeCanvas w \<noteq> None \<Longrightarrow>
   load_attempts (renderPng_calls cs w) = load_attempts w
   \<and> NodeCanvas (renderPng_calls cs w) = NodeCanvas w"
proof (induction cs arbitrary: w)
  case Nil
  then show ?case by simp
next
  case (Cons a cs)
  obtain host options where a: "a = (host, options)" by (cases a)
  let ?w = "snd (renderPng host options w)"
  from Cons.prems have w: "load_attempts ?w = load_attempts w" "NodeCanvas ?w = NodeCanvas w"
    using renderPng_cached [of w host options] by simp_all
  with Cons.prems have "NodeCanvas ?w \<noteq> None" by simp
  from Cons.IH [OF this] w show ?case by (simp add: a)
qed

lemma renderPng_failed_load:
  assumes "\<not> window_defined host" "NodeCanvas w = None" "import_canvas host = Inl e"
  shows "renderPng host options w
     = (Inl (if err_code e = Some (lit ''MODULE_NOT_FOUND'') then new_Error canvas_unavailable else e),
        call [ImportCanvas] w)"
  using assms by (simp add: renderPng_def load_canvas_def)

lemma renderPng_first_load:
  assumes "\<not> window_defined host" "NodeCanvas w = None" "import_canvas host = Inr m"
    "Canvas m \<noteq> None"
  shows "NodeCanvas (snd (renderPng host options w)) = Canvas m
     \<and> load_attempts (snd (renderPng host options w)) = load_attempts w + 1"
  using assms
  by (auto simp: renderPng_def load_canvas_def draw_world load_attempts_import load_attempts_call
      NodeCanvas_call split: option.splits)

lemma renderPng_attempts_le:
  "load_attempts (snd (renderPng host options w)) \<le> load_attempts w + 1"
  by (auto simp: renderPng_def load_canvas_def draw_world load_attempts_import load_attempts_call
      split: sum.splits option.splits)

lemma Encode_strict_wf: "(\<exists>r. Encode uriStrict s = Inr r) = isWellFormed s"
  by (rule Encode_wf) (rule uriStrict_not_surrogate)

lemma Encode_strict_failure: "\<not> isWellFormed s \<Longrightarrow> Encode uriStrict s = Inl URIError"
  using Encode_strict_wf [of s] Encode_error [of uriStrict s]
  by (cases "Encode uriStrict s") auto

lemma Encode_strict_no_quote:
  "Encode uriStrict s = Inr r \<Longrightarrow> 0x27 \<notin> set r \<and> 0x22 \<notin> set r"
proof (induction s arbitrary: r rule: isWellFormed.induct)
  case 1
  then show ?case by simp
next
  case (2 c)
  then show ?case
    using escape_no_quote [of "unat c"] uriUnreserved_not_dq
    by (auto simp: uriStrict_def split: if_splits)
next
  case (3 c c' s)
  then show ?case
    using escape_no_quote [of "unat c"] escape_no_quote [of "code_point c c'"] uriUnreserved_not_dq
      uriUnreserved_not_surrogate [of c]
    by (auto simp: uriStrict_def map_sum_def split: if_splits sum.splits)
qed

lemma generatePlaceholder_svg:
  assumes "format options = Some (lit ''svg'')"
  shows "generatePlaceholder host options w
     = (map_sum id ((@) svg_prefix) (Encode uriStrict (renderSvg options)), w)"
proof -
  have "or_else (format options) (lit ''png'') = lit ''svg''"
    using assms by (simp add: or_else_def lit_def)
  then show ?thesis
    by (simp add: generatePlaceholder_def Let_def encodeURIComponent_def Encode_strict svg_prefix_def
        map_sum_def split: sum.splits)
qed

lemma isWellFormed_or_else:
  "well_formed_override v \<Longrightarrow> isWellFormed d \<Longrightarrow> isWellFormed (or_else v d)"
  by (auto simp: well_formed_override_def or_else_def split: option.splits)

lemma isWellFormed_renderSvg:
  assumes "well_formed_override (backgroundColor options)" "well_formed_override (text' options)"
    "well_formed_override (textColor options)"
  shows "isWellFormed (renderSvg options)"
  unfolding renderSvg_unfold
  by (intro isWellFormed_svg_document isWellFormed_or_else assms no_surrogate_wf)
     simp_all

section \<open>The dispatcher and the module load\<close>

lemma generatePlaceholder_png:
  "format options = Some (lit ''png'') \<Longrightarrow>
   generatePlaceholder host options w = renderPng host options w"
  by (simp add: generatePlaceholder_def or_else_def lit_def)

text \<open>
  C4, as the code has it. With the \<open>format\<close> field absent, empty or \<open>png\<close>,
  \<open>generatePlaceholder\<close> is \<open>renderPng\<close>. For every format that is not empty and is neither
  \<open>svg\<close> nor \<open>png\<close> it fails with the message
  \<open>Unsupported format: {format}. Only 'png' and 'svg' are supported.\<close> and leaves the
  module variables and the record of host calls as they were: no renderer has run.
\<close>

theorem generatePlaceholder_dispatch:
  \<open>(format options = None \<longrightarrow> generatePlaceholder host options w = renderPng host options w)
   \<and> (format options = Some [] \<longrightarrow>
        generatePlaceholder host options w = renderPng host options w)
   \<and> (format options = Some (lit ''png'') \<longrightarrow>
        generatePlaceholder host options w = renderPng host options w)
   \<and> (\<forall>f. format options = Some f \<and> f \<noteq> [] \<and> f \<noteq> lit ''svg'' \<and> f \<noteq> lit ''png'' \<longrightarrow>
          generatePlaceholder host options w
          = (Inl (new_Error
                (lit ''Unsupported format: '' @ f @ lit ''. Only 'png' and 'svg' are supported.'')),
             w))\<close>
  using generatePlaceholder_unsupported [of options _ host w]
  by (simp add: generatePlaceholder_default generatePlaceholder_empty_format
      generatePlaceholder_png unsupported_format_def)

lemma renderPng_browser_sample:
  "renderPng browser_host (sample_options fmt) fresh_world
   = (Inr (lit ''data:image/png;base64,''),
      call [CreateElement (lit ''canvas''), SetWidth 100, SetHeight 100, GetContext (lit ''2d''),
            SetFillStyle (deterministicColor (lit ''invalid'')), FillRect 0 0 100 100,
            SetFont (Number_toString (double_mul (double_of_nat 100) double_0_3) @ lit ''px sans-serif''),
            SetFillStyle (lit ''#ffffff''), SetTextAlign (lit ''center''),
            SetTextBaseline (lit ''middle''),
            FillText (decimal 100 @ lit ''x'' @ decimal 100) (double_half (double_of_nat 100))
              (double_half (double_of_nat 100)),
            ToDataURL (lit ''image/png'')] fresh_world)"
  by (simp add: renderPng_def draw_def browser_host_def sample_options_def or_else_def Let_def)

theorem generatePlaceholder_dispatch_witness:
  \<open>generatePlaceholder browser_host (sample_options None) fresh_world
     = renderPng browser_host (sample_options None) fresh_world
   \<and> generatePlaceholder browser_host (sample_options (Some [])) fresh_world
     = renderPng browser_host (sample_options (Some [])) fresh_world
   \<and> fst (generatePlaceholder browser_host (sample_options (Some [])) fresh_world)
     = Inr (lit ''data:image/png;base64,'')
   \<and> generatePlaceholder browser_host (sample_options (Some (lit ''png''))) fresh_world
     = renderPng browser_host (sample_options (Some (lit ''png''))) fresh_world
   \<and> generatePlaceholder browser_host (sample_options (Some (lit ''jpeg''))) fresh_world
     = (Inl (new_Error (lit ''Unsupported format: jpeg. Only 'png' and 'svg' are supported.'')),
        fresh_world)\<close>
proof -
  have a: "format (sample_options fmt) = fmt" for fmt
    by (simp add: sample_options_def)
  have b: "lit ''jpeg'' \<noteq> [] \<and> lit ''jpeg'' \<noteq> lit ''svg'' \<and> lit ''jpeg'' \<noteq> lit ''png''"
    by (simp add: lit_def)
  have c: \<open>lit ''Unsupported format: '' @ lit ''jpeg'' @ lit ''. Only 'png' and 'svg' are supported.''
             = lit ''Unsupported format: jpeg. Only 'png' and 'svg' are supported.''\<close>
    by (simp add: lit_def)
  note d = generatePlaceholder_dispatch [where host = browser_host and w = fresh_world]
  have 1: "generatePlaceholder browser_host (sample_options None) fresh_world
             = renderPng browser_host (sample_options None) fresh_world"
    using d [where options = "sample_options None"] by (simp add: a)
  have 2: "generatePlaceholder browser_host (sample_options (Some [])) fresh_world
             = renderPng browser_host (sample_options (Some [])) fresh_world"
    using d [where options = "sample_options (Some [])"] by (simp add: a)
  have 3: "generatePlaceholder browser_host (sample_options (Some (lit ''png''))) fresh_world
             = renderPng browser_host (sample_options (Some (lit ''png''))) fresh_world"
    using d [where options = "sample_options (Some (lit ''png''))"] by (simp add: a)
  have 4: \<open>generatePlaceholder browser_host (sample_options (Some (lit ''jpeg''))) fresh_world
          = (Inl (new_Error (lit ''Unsupported format: '' @ lit ''jpeg''
                @ lit ''. Only 'png' and 'svg' are supported.'')), fresh_world)\<close>
    using d [where options = "sample_options (Some (lit ''jpeg''))"] b by (simp add: a)
  from 1 2 3 4 show ?thesis
    by (simp only: c renderPng_browser_sample fst_conv simp_thms)
qed

text \<open>
  C4, as it is stated, fails: the empty string is a format other than \<open>svg\<close> and \<open>png\<close>,
  and with it \<open>generatePlaceholder\<close> does not fail with the message; it renders the raster
  image, as for an absent format.
\<close>

theorem empty_format_counterexample:
  "generatePlaceholder browser_host (sample_options (Some [])) fresh_world
   \<noteq> (Inl (new_Error (unsupported_format [])), fresh_world)"
  by (simp add: generatePlaceholder_empty_format sample_options_def renderPng_def draw_def
      browser_host_def Let_def)







text \<open>
  C8, as the code has it. Once \<open>NodeCanvas\<close> holds a loaded module, no later sequence of
  \<open>renderPng\<close> calls attempts the load again and the variable keeps its value. A call
  without a \<open>window\<close> and with no module loaded attempts the load once: a load that
  succeeds with a \<open>Canvas\<close> export is stored in \<open>NodeCanvas\<close>, a load that fails leaves
  \<open>NodeCanvas\<close> empty. No call attempts the load more than once.
\<close>

theorem module_load_cached:
  "(NodeCanvas w \<noteq> None \<longrightarrow>
      load_attempts (renderPng_calls cs w) = load_attempts w
      \<and> NodeCanvas (renderPng_calls cs w) = NodeCanvas w)
   \<and> (\<not> window_defined host \<and> NodeCanvas w = None \<and> import_canvas host = Inr m
        \<and> Canvas m \<noteq> None \<longrightarrow>
      NodeCanvas (snd (renderPng host options w)) = Canvas m
      \<and> load_attempts (snd (renderPng host options w)) = load_attempts w + 1)
   \<and> (\<not> window_defined host \<and> NodeCanvas w = None \<and> import_canvas host = Inl e \<longrightarrow>
      NodeCanvas (snd (renderPng host options w)) = None
      \<and> load_attempts (snd (renderPng host options w)) = load_attempts w + 1)
   \<and> load_attempts (snd (renderPng host options w)) \<le> load_attempts w + 1"
  using renderPng_calls_cached [of w cs] renderPng_first_load [of host w m options]
    renderPng_failed_load [of host w e options] renderPng_attempts_le [of host options w]
  by (simp add: load_attempts_import NodeCanvas_call)

text \<open>
  C8, as it is stated, fails: after a call whose load has failed, the next call attempts
  the load again; two calls make two attempts.
\<close>

theorem failed_load_retried_counterexample:
  "load_attempts
     (renderPng_calls
        [(node_host_missing, sample_options None), (node_host_missing, sample_options None)]
        fresh_world) = 2"
  by (simp add: renderPng_def load_canvas_def node_host_missing_def node_host_def browser_host_def
      fresh_world_def module_not_found_def call_def load_attempts_def)

theorem module_load_cached_witness:
  "NodeCanvas (snd (renderPng node_host (sample_options None) fresh_world)) = Some 1
   \<and> load_attempts (snd (renderPng node_host (sample_options None) fresh_world)) = 1
   \<and> load_attempts
        (renderPng_calls
           [(node_host, sample_options None), (node_host_missing, sample_options None),
            (browser_host, sample_options None)]
           (snd (renderPng node_host (sample_options None) fresh_world))) = 1"
proof -
  let ?w = "snd (renderPng node_host (sample_options None) fresh_world)"
  let ?cs = "[(node_host, sample_options None), (node_host_missing, sample_options None),
    (browser_host, sample_options None)]"
  have h: "\<not> window_defined node_host \<and> NodeCanvas fresh_world = None
      \<and> import_canvas node_host = Inr \<lparr>Canvas = Some 1, Image = Some 2\<rparr>
      \<and> Canvas \<lparr>Canvas = Some 1, Image = Some 2\<rparr> \<noteq> None"
    by (simp add: node_host_def browser_host_def fresh_world_def)
  have z: "load_attempts fresh_world = 0"
    by (simp add: load_attempts_def fresh_world_def)
  from module_load_cached
    [where w = fresh_world and host = node_host and options = "sample_options None"
       and m = "\<lparr>Canvas = Some 1, Image = Some 2\<rparr>"] h z
  have 1: "NodeCanvas ?w = Some 1" "load_attempts ?w = 1"
    by simp_all
  from module_load_cached [where w = ?w and cs = ?cs] 1
  have "load_attempts (renderPng_calls ?cs ?w) = 1"
    by simp
  with 1 show ?thesis by simp
qed


section \<open>The vector path of the dispatcher\<close>

lemma sample_svg_well_formed: "isWellFormed (renderSvg (sample_options (Some (lit ''svg''))))"
  by (rule isWellFormed_renderSvg) (simp_all add: sample_options_def well_formed_override_def)

lemma Encode_append:
  assumes U: "\<And>c. U c \<Longrightarrow> \<not> is_lead c \<and> \<not> is_trail c"
  shows "Encode U a = Inr ra \<Longrightarrow> Encode U (a @ b) = map_sum id ((@) ra) (Encode U b)"
proof (induction a arbitrary: ra rule: isWellFormed.induct)
  case 1
  then show ?case by (cases "Encode U b") simp_all
next
  case (2 c)
  then show ?case
    using U [of c]
    by (cases b) (auto simp: map_sum_def split: if_splits sum.splits)
next
  case (3 c c' s)
  then show ?case
    using U [of c]
    by (auto simp: map_sum_def lead_not_trail split: if_splits sum.splits)
qed

lemma Encode_strict_append:
  "Encode uriStrict a = Inr ra \<Longrightarrow> Encode uriStrict b = Inr rb \<Longrightarrow>
   Encode uriStrict (a @ b) = Inr (ra @ rb)"
  using Encode_append [of uriStrict a ra b] uriStrict_not_surrogate by simp

text \<open>
  C5, as the code has it. For a request with the \<open>svg\<close> format whose markup is well
  formed, \<open>generatePlaceholder\<close> returns the prefix \<open>data:image/svg+xml;charset=utf-8,\<close>
  followed by the result of \<open>encodeURIComponent\<close> on the markup with every single quote
  replaced by \<open>%27\<close> and every double quote by \<open>%22\<close>; that is the percent-encoding in
  which only letters, digits and \<open>- _ . ! ~ * ( )\<close> stay as they are, and neither quote
  occurs in it. For markup with a surrogate code unit without its partner it rejects with
  the \<open>URIError\<close> of \<open>encodeURIComponent\<close>. In both cases no host call is made.
\<close>

theorem generatePlaceholder_svg_encoding:
  assumes "format options = Some (lit ''svg'')"
  shows "(isWellFormed (renderSvg options) \<longrightarrow>
            (\<exists>encoded body.
                encodeURIComponent (renderSvg options) = Inr encoded
              \<and> body = replace_all 0x22 (lit ''%22'') (replace_all 0x27 (lit ''%27'') encoded)
              \<and> Encode uriStrict (renderSvg options) = Inr body
              \<and> generatePlaceholder host options w
                  = (Inr (lit ''data:image/svg+xml;charset=utf-8,'' @ body), w)
              \<and> 0x27 \<notin> set body \<and> 0x22 \<notin> set body))
       \<and> (\<not> isWellFormed (renderSvg options) \<longrightarrow>
            generatePlaceholder host options w = (Inl URIError, w))"
proof (intro conjI impI)
  assume "isWellFormed (renderSvg options)"
  then obtain body where body: "Encode uriStrict (renderSvg options) = Inr body"
    using Encode_strict_wf [of "renderSvg options"] by auto
  then obtain encoded where encoded: "Encode uriUnreserved (renderSvg options) = Inr encoded"
    and eq: "body = replace_all 0x22 (lit ''%22'') (replace_all 0x27 (lit ''%27'') encoded)"
    by (cases "Encode uriUnreserved (renderSvg options)") (simp_all add: Encode_strict)
  from generatePlaceholder_svg [OF assms, of host w] body
  have "generatePlaceholder host options w
          = (Inr (lit ''data:image/svg+xml;charset=utf-8,'' @ body), w)"
    by (simp add: svg_prefix_def)
  with body encoded eq Encode_strict_no_quote [OF body]
  show "\<exists>encoded body.
           encodeURIComponent (renderSvg options) = Inr encoded
         \<and> body = replace_all 0x22 (lit ''%22'') (replace_all 0x27 (lit ''%27'') encoded)
         \<and> Encode uriStrict (renderSvg options) = Inr body
         \<and> generatePlaceholder host options w
             = (Inr (lit ''data:image/svg+xml;charset=utf-8,'' @ body), w)
         \<and> 0x27 \<notin> set body \<and> 0x22 \<notin> set body"
    by (simp add: encodeURIComponent_def)
next
  assume "\<not> isWellFormed (renderSvg options)"
  then have "Encode uriStrict (renderSvg options) = Inl URIError"
    by (rule Encode_strict_failure)
  with generatePlaceholder_svg [OF assms, of host w]
  show "generatePlaceholder host options w = (Inl URIError, w)" by simp
qed

lemma quoted_options_markup:
  \<open>\<exists>pre. no_surrogate pre
     \<and> renderSvg quoted_options = pre @ lit ''it's "x"</text>\<newline>    </svg>''\<close>
proof -
  let ?pre = \<open>lit ''<?xml version="1.0" encoding="UTF-8"?>\<newline>    <svg width="'' @ decimal 100
     @ lit ''" height="'' @ decimal 100 @ lit ''" viewBox="0 0 '' @ decimal 100 @ lit '' ''
     @ decimal 100
     @ lit ''" xmlns="http://www.w3.org/2000/svg">\<newline>      <rect width="100%" height="100%" fill="''
     @ deterministicColor (lit ''invalid'')
     @ lit ''"/>\<newline>      <text\<newline>        x="50%"\<newline>        y="50%"\<newline>        font-family="sans-serif"\<newline>        font-size="''
     @ Number_toString (double_mul (double_of_nat 100) double_0_3)
     @ lit ''"\<newline>        fill="'' @ lit ''#ffffff''
     @ lit ''"\<newline>        text-anchor="middle"\<newline>        dominant-baseline="middle"\<newline>      >''\<close>
  have "no_surrogate ?pre" by simp
  moreover have \<open>renderSvg quoted_options = ?pre @ lit ''it's "x"</text>\<newline>    </svg>''\<close>
    by (simp add: renderSvg_unfold quoted_options_def svg_document_def or_else_def)
       (simp add: lit_def)
  ultimately show ?thesis by blast
qed

lemma Encode_quoted_label:
  \<open>Encode uriStrict (lit ''it's "x"</text>\<newline>    </svg>'')
     = Inr (lit ''it%27s%20%22x%22%3C%2Ftext%3E%0A%20%20%20%20%3C%2Fsvg%3E'')\<close>
  by (simp add: uriStrict_def uriUnreserved_def is_lead_def is_trail_def escape_def
      utf8_def percent_def hex_digit_def lit_def)

theorem generatePlaceholder_svg_encoding_witness:
  \<open>\<exists>encoded body.
       encodeURIComponent (renderSvg quoted_options) = Inr encoded
     \<and> body = replace_all 0x22 (lit ''%22'') (replace_all 0x27 (lit ''%27'') encoded)
     \<and> Encode uriStrict (renderSvg quoted_options) = Inr body
     \<and> generatePlaceholder node_host quoted_options fresh_world
         = (Inr (lit ''data:image/svg+xml;charset=utf-8,'' @ body), fresh_world)
     \<and> 0x27 \<notin> set body \<and> 0x22 \<notin> set body
     \<and> (\<exists>pre. body = pre @ lit ''it%27s%20%22x%22%3C%2Ftext%3E%0A%20%20%20%20%3C%2Fsvg%3E'')\<close>
proof -
  have f: "format quoted_options = Some (lit ''svg'')" by (simp add: quoted_options_def)
  obtain pre where pre: "no_surrogate pre"
    and markup: \<open>renderSvg quoted_options = pre @ lit ''it's "x"</text>\<newline>    </svg>''\<close>
    using quoted_options_markup by blast
  from pre obtain rpre where rpre: "Encode uriStrict pre = Inr rpre"
    using Encode_strict_wf [of pre] no_surrogate_wf by blast
  have whole: \<open>Encode uriStrict (renderSvg quoted_options)
      = Inr (rpre @ lit ''it%27s%20%22x%22%3C%2Ftext%3E%0A%20%20%20%20%3C%2Fsvg%3E'')\<close>
    unfolding markup by (rule Encode_strict_append [OF rpre Encode_quoted_label])
  then have wf: "isWellFormed (renderSvg quoted_options)"
    using Encode_strict_wf [of "renderSvg quoted_options"] by simp
  from generatePlaceholder_svg_encoding [OF f, of node_host fresh_world] wf
  obtain encoded body where
    "encodeURIComponent (renderSvg quoted_options) = Inr encoded"
    "body = replace_all 0x22 (lit ''%22'') (replace_all 0x27 (lit ''%27'') encoded)"
    "Encode uriStrict (renderSvg quoted_options) = Inr body"
    "generatePlaceholder node_host quoted_options fresh_world
       = (Inr (lit ''data:image/svg+xml;charset=utf-8,'' @ body), fresh_world)"
    "0x27 \<notin> set body" "0x22 \<notin> set body"
    by blast
  moreover from this(3) whole
  have "body = rpre @ lit ''it%27s%20%22x%22%3C%2Ftext%3E%0A%20%20%20%20%3C%2Fsvg%3E''"
    by simp
  ultimately show ?thesis by blast
qed

lemma lone_surrogate_markup:
  "\<not> isWellFormed (svg_document w h bg fs fg [0xD800])" if "no_surrogate w" "no_surrogate h" "no_surrogate fs" "isWellFormed bg" "isWellFormed fg"
  using that
  by (simp add: svg_document_def isWellFormed_append no_surrogate_wf)
     (simp add: lit_def is_lead_def is_trail_def)

text \<open>
  C5, as it is stated, fails: with a label that is a surrogate code unit without its
  partner, \<open>encodeURIComponent\<close> raises a \<open>URIError\<close> and nothing is returned.
\<close>

theorem lone_surrogate_counterexample:
  "fst (generatePlaceholder node_host
          ((sample_options (Some (lit ''svg'')))\<lparr>text' := Some [0xD800]\<rparr>) fresh_world)
   = Inl URIError"
proof -
  let ?o = "(sample_options (Some (lit ''svg'')))\<lparr>text' := Some [0xD800]\<rparr>"
  have f: "format ?o = Some (lit ''svg'')" by (simp add: sample_options_def)
  have "\<not> isWellFormed (renderSvg ?o)"
    unfolding renderSvg_unfold
    by (simp add: sample_options_def or_else_def lone_surrogate_markup no_surrogate_wf)
  then have "Encode uriStrict (renderSvg ?o) = Inl URIError" by (rule Encode_strict_failure)
  with generatePlaceholder_svg [OF f, of node_host fresh_world] show ?thesis by simp
qed

lemma format_not_png:
  assumes "or_else (format options) (lit ''png'') \<noteq> lit ''png''"
  obtains f where "format options = Some f" "f \<noteq> []" "f \<noteq> lit ''png''"
  using assms by (cases "format options") (auto simp: or_else_def split: if_splits)

text \<open>
  C9, as the code has it. \<open>renderSvg\<close> returns a string for every request; it has no
  failure. When the format selects neither the raster renderer nor its default,
  \<open>generatePlaceholder\<close> makes no host call, and it fails in two cases only: with the
  unsupported-format error when the format is not \<open>svg\<close>, and with the \<open>URIError\<close> of
  \<open>encodeURIComponent\<close> when the format is \<open>svg\<close> and the markup has a surrogate code unit
  without its partner. With the \<open>svg\<close> format and overrides that are absent or well formed
  it returns a string.
\<close>

theorem vector_path_failures:
  assumes "or_else (format options) (lit ''png'') \<noteq> lit ''png''"
  shows "snd (generatePlaceholder host options w) = w
     \<and> (\<forall>e. fst (generatePlaceholder host options w) = Inl e \<longrightarrow>
          (format options = Some (lit ''svg'') \<and> e = URIError
             \<and> \<not> isWellFormed (renderSvg options))
          \<or> (\<exists>f. format options = Some f \<and> f \<noteq> lit ''svg''
                \<and> e = new_Error (unsupported_format f)))
     \<and> (format options = Some (lit ''svg'') \<and> well_formed_override (backgroundColor options)
          \<and> well_formed_override (text' options) \<and> well_formed_override (textColor options) \<longrightarrow>
        (\<exists>url. fst (generatePlaceholder host options w) = Inr url))"
proof -
  from assms obtain f where f: "format options = Some f" "f \<noteq> []" "f \<noteq> lit ''png''"
    by (rule format_not_png)
  show ?thesis
  proof (cases "f = lit ''svg''")
    case True
    with f have svg: "format options = Some (lit ''svg'')" by simp
    note g = generatePlaceholder_svg [OF svg, of host w]
    have 1: "snd (generatePlaceholder host options w) = w" by (simp add: g)
    have 2: "e = URIError \<and> \<not> isWellFormed (renderSvg options)"
      if "fst (generatePlaceholder host options w) = Inl e" for e
    proof -
      from that have e: "Encode uriStrict (renderSvg options) = Inl e"
        by (cases "Encode uriStrict (renderSvg options)") (simp_all add: g)
      then have "e = URIError" by (rule Encode_error)
      moreover from e have "\<not> isWellFormed (renderSvg options)"
        using Encode_strict_wf [of "renderSvg options"] by auto
      ultimately show ?thesis by simp
    qed
    have 3: "\<exists>url. fst (generatePlaceholder host options w) = Inr url"
      if "well_formed_override (backgroundColor options)" "well_formed_override (text' options)"
        "well_formed_override (textColor options)"
    proof -
      from that have "isWellFormed (renderSvg options)" by (rule isWellFormed_renderSvg)
      then obtain r where "Encode uriStrict (renderSvg options) = Inr r"
        using Encode_strict_wf [of "renderSvg options"] by auto
      then show ?thesis by (simp add: g)
    qed
    from 1 2 3 svg show ?thesis by blast
  next
    case False
    with f have "generatePlaceholder host options w = (Inl (new_Error (unsupported_format f)), w)"
      by (simp add: generatePlaceholder_unsupported)
    with f False show ?thesis by simp
  qed
qed

theorem vector_path_failures_witness:
  "snd (generatePlaceholder browser_host (sample_options (Some (lit ''svg''))) fresh_world)
     = fresh_world
   \<and> (\<exists>url. fst (generatePlaceholder browser_host (sample_options (Some (lit ''svg'')))
                   fresh_world) = Inr url)"
proof -
  let ?o = "sample_options (Some (lit ''svg''))"
  have a: "or_else (format ?o) (lit ''png'') \<noteq> lit ''png''"
    by (simp add: sample_options_def or_else_def lit_def)
  have b: "format ?o = Some (lit ''svg'') \<and> well_formed_override (backgroundColor ?o)
      \<and> well_formed_override (text' ?o) \<and> well_formed_override (textColor ?o)"
    by (simp add: sample_options_def well_formed_override_def)
  from vector_path_failures [OF a, of browser_host fresh_world] b show ?thesis by blast
qed

lemma lone_trail_markup:
  "\<not> isWellFormed (svg_document w h [0xDC00] fs fg label)" if "no_surrogate w" "no_surrogate h"
  using that
  by (simp add: svg_document_def isWellFormed_append no_surrogate_wf)
     (simp add: lit_def is_lead_def is_trail_def)

text \<open>
  C9, as it is stated, fails: with the \<open>svg\<close> format and a background colour that is a
  surrogate code unit without its partner, \<open>generatePlaceholder\<close> fails with a \<open>URIError\<close>,
  which is not the unsupported-format error.
\<close>

theorem vector_path_counterexample:
  "fst (generatePlaceholder browser_host
          ((sample_options (Some (lit ''svg'')))\<lparr>backgroundColor := Some [0xDC00]\<rparr>) fresh_world)
     = Inl URIError
   \<and> URIError \<noteq> new_Error (unsupported_format (lit ''svg''))"
proof -
  let ?o = "(sample_options (Some (lit ''svg'')))\<lparr>backgroundColor := Some [0xDC00]\<rparr>"
  have f: "format ?o = Some (lit ''svg'')" by (simp add: sample_options_def)
  have "\<not> isWellFormed (renderSvg ?o)"
    unfolding renderSvg_unfold
    by (simp add: sample_options_def or_else_def lone_trail_markup)
  then have "Encode uriStrict (renderSvg ?o) = Inl URIError" by (rule Encode_strict_failure)
  with generatePlaceholder_svg [OF f, of browser_host fresh_world]
  show ?thesis by (simp add: URIError_def new_Error_def lit_def)
qed

section \<open>Worked examples\<close>

text \<open>
  The double of the literal \<open>0.3\<close> has 53 significant bits and lies within half a unit
  in the last place of three tenths.
\<close>

lemma double_0_3_nearest:
  "2 * \<bar>int (fst double_0_3) * 10 - 3 * 2 ^ snd double_0_3\<bar> \<le> 10 \<and> bitlen (fst double_0_3) = 53"
  by (simp add: double_0_3_def bitlen.simps)

lemma bitlen_evals:
  "bitlen 540431955284459500 = 59" "bitlen 540431955284459520 = 59"
  "bitlen 405323966463344625 = 59" "bitlen 405323966463344640 = 59"
  "bitlen 16212958658533785 = 54" "bitlen 16212958658533784 = 54"
  by (simp_all add: bitlen.simps)

text \<open>
  The font sizes for the smaller dimensions 100, 75 and 3, and their printed forms: the
  product is rounded, so the last one is not nine tenths.
\<close>

lemma fontSize_100: "double_mul (double_of_nat 100) double_0_3 = (540431955284459520, 54)"
  by (simp add: double_mul_def double_of_nat_def double_0_3_def round53_def bitlen_evals)

lemma fontSize_75: "double_mul (double_of_nat 75) double_0_3 = (405323966463344640, 54)"
  by (simp add: double_mul_def double_of_nat_def double_0_3_def round53_def bitlen_evals)

lemma fontSize_3: "double_mul (double_of_nat 3) double_0_3 = (16212958658533784, 54)"
  by (simp add: double_mul_def double_of_nat_def double_0_3_def round53_def bitlen_evals)

lemmas toString_evals =
  Number_toString_def decimal_candidate_def in_rounding_interval_def decimal_distance_def
  decimal_notation_def pad_left_def ndigits.simps decimal.simps digit_def lit_def Let_def

lemma toString_30: "Number_toString (540431955284459520, 54) = lit ''30''"
  by (simp add: toString_evals bitlen_evals)

lemma toString_22_5: "Number_toString (405323966463344640, 54) = lit ''22.5''"
  by (simp add: toString_evals bitlen_evals)

lemma toString_0_9: "Number_toString (16212958658533784, 54) = lit ''0.8999999999999999''"
  by (simp add: toString_evals bitlen_evals)

text \<open>\<open>encodeURIComponent\<close> on markup characters, a single quote and non-ASCII text.\<close>

lemma Encode_example:
  \<open>encodeURIComponent (lit ''<a b="c" d='e'>'' @ [0xE9, 0x20AC, 0xD83D, 0xDE00])
     = Inr (lit ''%3Ca%20b%3D%22c%22%20d%3D'e'%3E%C3%A9%E2%82%AC%F0%9F%98%80'')\<close>
  by (simp add: encodeURIComponent_def uriUnreserved_def is_lead_def is_trail_def escape_def
      utf8_def percent_def hex_digit_def code_point_def lit_def)

text \<open>The request of the first test of the repository, and its document.\<close>

lemma deterministicColor_example: "deterministicColor (lit ''test-svg'') = lit ''hsl(71, 70%, 50%)''"
  by (simp add: deterministicColor_def hashString_def hash_loop_0_word js_rem_def int_toString_def
      decimal.simps digit_def lit_def)

lemma renderSvg_example:
  \<open>renderSvg \<lparr>width = 100, height = 100, seed = lit ''test-svg'', format = Some (lit ''svg''),
       text' = None, textColor = None, backgroundColor = None\<rparr>
   = lit ''<?xml version="1.0" encoding="UTF-8"?>\<newline>    <svg width="100" height="100" viewBox="0 0 100 100" xmlns="http://www.w3.org/2000/svg">\<newline>      <rect width="100%" height="100%" fill="hsl(71, 70%, 50%)"/>\<newline>      <text\<newline>        x="50%"\<newline>        y="50%"\<newline>        font-family="sans-serif"\<newline>        font-size="30"\<newline>        fill="#ffffff"\<newline>        text-anchor="middle"\<newline>        dominant-baseline="middle"\<newline>      >100x100</text>\<newline>    </svg>''\<close>
  by (simp add: renderSvg_unfold svg_document_def or_else_def fontSize_100 toString_30
      deterministicColor_example)
     (simp add: decimal.simps digit_def lit_def)

text \<open>
  A module whose \<open>Canvas\<close> export has no \<open>createCanvas\<close>: the load succeeds and is kept,
  and the call raises.
\<close>

lemma renderPng_class_example:
  "renderPng node_host_class (sample_options None) fresh_world
   = (Inl (TypeError (lit ''NodeCanvas.createCanvas is not a function'')),
      \<lparr>NodeCanvas = Some 1, NodeImage = Some 2, trace = [ImportCanvas, CreateCanvas 100 100]\<rparr>)"
  by (simp add: renderPng_def load_canvas_def call_def node_host_class_def node_host_def
      browser_host_def sample_options_def fresh_world_def)

section \<open>The document of the vector renderer\<close>

lemma tokens_text_run:
  "safe_text t \<Longrightarrow> tokens (InText acc) done (t @ s) = tokens (InText (acc @ t)) done s"
  by (induction t arbitrary: acc) (simp_all add: safe_text_def)

lemma tokens_value_run:
  "safe_attribute v \<Longrightarrow>
   tokens (InValue n as a acc) done (v @ s) = tokens (InValue n as a (acc @ v)) done s"
  by (induction v arbitrary: acc) (simp_all add: safe_attribute_def)


lemma read_svg_document_markup_label:
  assumes "safe_attribute w" "safe_attribute h" "safe_attribute bg" "safe_attribute fs"
    "safe_attribute fg"
  shows "read_xml (svg_document w h bg fs fg (lit ''a<b'')) = None"
  using assms
  by (simp add: read_xml_def svg_document_def lit_def name_char_def
      xml_space_def characters_def tokens_text_run tokens_value_run)

lemma safe_attribute_append [simp]:
  "safe_attribute (a @ b) = (safe_attribute a \<and> safe_attribute b)"
  by (simp add: safe_attribute_def)


lemma small_digit_safe:
  assumes "unat (c :: 16 word) = 48 + d" "d < 10"
  shows "c \<noteq> 0x22 \<and> c \<noteq> 0x3C \<and> c \<noteq> 0x26"
  using assms by auto

lemma digit_value: "d < 10 \<Longrightarrow> unat (digit d) = 48 + d"
  unfolding digit_def by (subst unat_of_nat_small) simp_all

lemma safe_attribute_digit: "d < 10 \<Longrightarrow> safe_attribute [digit d]"
  using small_digit_safe [OF digit_value, of d] by (simp add: safe_attribute_def)

lemma safe_attribute_decimal [simp]: "safe_attribute (decimal n)"
proof (induction n rule: decimal.induct)
  case (1 n)
  show ?case
  proof (cases "n < 10")
    case True
    then show ?thesis by (simp add: decimal.simps [of n] safe_attribute_digit)
  next
    case False
    have "n mod 10 < 10" by simp
    with False 1 show ?thesis
      by (simp add: decimal.simps [of n] safe_attribute_digit)
  qed
qed

lemma safe_attribute_zeros: "safe_attribute (replicate k (digit 0))"
  using safe_attribute_digit [of 0] by (induction k) (simp_all add: safe_attribute_def)

lemma safe_attribute_Number_toString [simp]: "safe_attribute (Number_toString x)"
proof -
  have dot: "safe_attribute (lit ''.'')" "safe_attribute (lit ''0'')" "safe_attribute []"
    by (simp_all add: safe_attribute_def lit_def)
  have "safe_attribute (decimal_notation s k n)" for s k n
    by (simp add: decimal_notation_def pad_left_def dot safe_attribute_zeros)
  then show ?thesis
    by (simp add: Number_toString_def Let_def dot split: option.splits prod.splits)
qed

lemma safe_attribute_deterministicColor [simp]: "safe_attribute (deterministicColor s)"
proof -
  have "safe_attribute (lit ''hsl('')" "safe_attribute (lit '', '')" "safe_attribute (lit ''%, '')"
    "safe_attribute (lit ''%)'')" "safe_attribute (lit ''-'')"
    by (simp_all add: safe_attribute_def lit_def)
  then show ?thesis
    by (simp add: deterministicColor_def Let_def int_toString_def)
qed






text \<open>
  A label with \<open><\<close> in it: the markup is not a document, no text node holds the label.
\<close>

lemma renderSvg_markup_in_label:
  "read_xml (renderSvg (styled_options\<lparr>text' := Some (lit ''a<b'')\<rparr>)) = None"
proof -
  have s: "or_else (Some (lit ''#FFD700'')) u = lit ''#FFD700''"
    "or_else (Some (lit ''#000000'')) u = lit ''#000000''"
    "or_else (Some (lit ''a<b'')) u = lit ''a<b''" for u
    by (simp_all add: or_else_def lit_def)
  have "safe_attribute (lit ''#FFD700'')" "safe_attribute (lit ''#000000'')"
    by (simp_all add: safe_attribute_def lit_def)
  then show ?thesis
    unfolding renderSvg_unfold
    by (simp add: styled_options_def s read_svg_document_markup_label)
qed

end
